theory Spec2Isabelle
  imports Main "HOL-Library.Sublist"
begin

section \<open>The bot service of TriggerBot (src/src/bot/bot.service.ts)\<close>

text \<open>
  The file \<^verbatim>\<open>bot.service.ts\<close> holds three historical variants of the service. The
  embedding follows the first one (lines 1-307): the multi-tenant service with one
  \<^verbatim>\<open>UserChatState\<close> per chat, which is the variant the specification describes.

  Every handler is embedded as one atomic step on the service state. The handlers are
  asynchronous in the source; the interleaving of two handlers at an \<^verbatim>\<open>await\<close> is not
  part of this model. Calls to the logger are left out: they change no state.
\<close>

subsection \<open>Data\<close>

type_synonym enterpriseId = string
type_synonym chatId = string

text \<open>
  \<^verbatim>\<open>type UserChatState = { lastMessageBody: string | null; messageCount: number }\<close>.
  The count is a natural number here; a JavaScript number counts exactly far beyond any
  number of messages a chat receives.
\<close>

record UserChatState =
  lastMessageBody :: "string option"
  messageCount :: nat

text \<open>\<^verbatim>\<open>type ClientState = { userStates: Map<string, UserChatState>; endingFlags: Map<string, boolean> }\<close>\<close>

record ClientState =
  userStates :: "chatId \<rightharpoonup> UserChatState"
  endingFlags :: "chatId \<rightharpoonup> bool"

text \<open>
  A \<^verbatim>\<open>Client\<close> of the messaging library is opaque. Its identity is what matters (is the
  handle returned the one that was stored?), so a client is the serial number of its construction.
\<close>

type_synonym Client = nat

text \<open>The three notifications the service emits through the event emitter.\<close>

datatype event =
    QrcodeCreated enterpriseId string
  | ClientReady enterpriseId
  | ClientDisconnected enterpriseId

text \<open>
  The two ways the service hands a text to the transport: \<^verbatim>\<open>msg.reply(text)\<close>, which answers
  the chat the message came from, and \<^verbatim>\<open>client.sendMessage(chatId, text)\<close>.
\<close>

datatype send =
    Reply chatId string
  | SendMessage chatId string

text \<open>
  How an awaited call of a collaborator ends: it resolves, or it rejects with an error whose
  \<^verbatim>\<open>message\<close> may be absent.
\<close>

datatype outcome =
    Resolves
  | Rejects "string option"

text \<open>The fields of an inbound \<^verbatim>\<open>Message\<close> that the service reads.\<close>

record Message =
  msg_fromMe :: bool
  msg_from :: chatId
  msg_body :: string

text \<open>
  Modelled from the spec: the rows of the data store (the Prisma schema of the tables
  \<^verbatim>\<open>prompt\<close> and \<^verbatim>\<open>messages\<close> with the column \<^verbatim>\<open>ending\<close> is not among the sources).
  A prompt record is \<open>{body, available}\<close> and a reply record is
  \<open>{trigger, body, ending, available}\<close>, each scoped to a tenant.
\<close>

record Prompt =
  prompt_enterpriseId :: enterpriseId
  prompt_available :: bool
  prompt_body :: string

record Messages =
  reply_enterpriseId :: enterpriseId
  reply_available :: bool
  reply_trigger :: string
  reply_body :: string
  reply_ending :: bool

record Database =
  prompt_table :: "Prompt list"
  messages_table :: "Messages list"

text \<open>
  The state of \<^verbatim>\<open>BotService\<close>: its two maps, and what it has done to its collaborators so
  far, each in the order of the calls: the events emitted, the texts handed to the transport,
  and the tenants whose credential folders \<^verbatim>\<open>deleteSessionData\<close> was called for.
  \<open>created\<close> counts the \<^verbatim>\<open>new Client(...)\<close> constructions.
\<close>

record BotService =
  clients :: "enterpriseId \<rightharpoonup> Client"
  clientStates :: "enterpriseId \<rightharpoonup> ClientState"
  emitted :: "event list"
  outbound :: "send list"
  sessionDeletions :: "enterpriseId list"
  created :: nat

definition initial :: BotService where
  "initial = \<lparr>clients = Map.empty, clientStates = Map.empty, emitted = [],
              outbound = [], sessionDeletions = [], created = 0\<rparr>"

subsection \<open>The data store's lookups\<close>

text \<open>
  Modelled from the spec: the comparison of \<^verbatim>\<open>{ equals: msg.body, mode: 'insensitive' }\<close>,
  which the data store carries out. Two texts are equal when they are equal after the
  letters A-Z are replaced by a-z.
\<close>

definition lower_char :: "char \<Rightarrow> char" where
  "lower_char c =
     (let n = (of_char c :: nat) in if 65 \<le> n \<and> n \<le> 90 then char_of (n + 32) else c)"

definition equals_insensitive :: "string \<Rightarrow> string \<Rightarrow> bool" where
  "equals_insensitive a b \<longleftrightarrow> map lower_char a = map lower_char b"

text \<open>
  \<^verbatim>\<open>prisma.prompt.findFirst({ where: { enterpriseId, available: true } })\<close>: the first row
  of the table that satisfies the filter, \<open>None\<close> for \<^verbatim>\<open>null\<close>. As in the interface
  of the specification (\<open>findPrompt(tenantId) -> Prompt|none\<close>), a lookup always answers.
\<close>

definition prompt_findFirst :: "Database \<Rightarrow> enterpriseId \<Rightarrow> Prompt option" where
  "prompt_findFirst db eid =
     find (\<lambda>p. prompt_enterpriseId p = eid \<and> prompt_available p) (prompt_table db)"

text \<open>
  \<^verbatim>\<open>prisma.messages.findFirst({ where: { enterpriseId, available: true,
  trigger: { equals: msg.body, mode: 'insensitive' } } })\<close>.
\<close>

definition reply_matches :: "enterpriseId \<Rightarrow> string \<Rightarrow> Messages \<Rightarrow> bool" where
  "reply_matches eid text r \<longleftrightarrow>
     reply_enterpriseId r = eid \<and> reply_available r \<and> equals_insensitive (reply_trigger r) text"

definition messages_findFirst :: "Database \<Rightarrow> enterpriseId \<Rightarrow> string \<Rightarrow> Messages option" where
  "messages_findFirst db eid text = find (reply_matches eid text) (messages_table db)"

subsection \<open>handleMessage\<close>

text \<open>\<^verbatim>\<open>error.message?.includes(needle)\<close>\<close>

definition message_includes :: "string option \<Rightarrow> string \<Rightarrow> bool" where
  "message_includes m needle = (case m of None \<Rightarrow> False | Some text \<Rightarrow> sublist needle text)"

text \<open>
  Lines 140-145: the state of this chat, or a new one that is not yet stored;
  line 148: \<^verbatim>\<open>clientState.endingFlags.get(chatId) ?? false\<close>.
\<close>

definition getUserState :: "ClientState \<Rightarrow> chatId \<Rightarrow> UserChatState" where
  "getUserState clientState chat =
     (case userStates clientState chat of
        None \<Rightarrow> \<lparr>lastMessageBody = None, messageCount = 0\<rparr>
      | Some userState \<Rightarrow> userState)"

definition isEnding :: "ClientState \<Rightarrow> chatId \<Rightarrow> bool" where
  "isEnding clientState chat =
     (case endingFlags clientState chat of None \<Rightarrow> False | Some flag \<Rightarrow> flag)"

text \<open>
  The conversation state of a (tenant, chat) pair as \<open>handleMessage\<close> reads it: the chat's
  state and its ending flag, with the defaults of lines 140-148 for a chat that has no entry;
  \<open>None\<close> when the tenant has no container.
\<close>

definition conversationState ::
  "BotService \<Rightarrow> enterpriseId \<Rightarrow> chatId \<Rightarrow> (UserChatState \<times> bool) option" where
  "conversationState s eid chat =
     (case clientStates s eid of
        None \<Rightarrow> None
      | Some clientState \<Rightarrow> Some (getUserState clientState chat, isEnding clientState chat))"

text \<open>
  The handler of lines 206-225 for a rejected \<^verbatim>\<open>msg.reply\<close>: when the error says that the
  quoted message could not be got, the last body of the chat's state is sent as a new
  message, if it is truthy (neither \<^verbatim>\<open>null\<close> nor the empty string); a failure of that
  send is only logged. Every other error is only logged.
\<close>

definition catch_sends :: "outcome \<Rightarrow> chatId \<Rightarrow> UserChatState \<Rightarrow> send list" where
  "catch_sends replied chat userState =
     (case replied of
        Resolves \<Rightarrow> []
      | Rejects m \<Rightarrow>
          if message_includes m ''Could not get the quoted message''
          then (case lastMessageBody userState of
                  None \<Rightarrow> []
                | Some messageToSend \<Rightarrow>
                    if messageToSend = [] then [] else [SendMessage chat messageToSend])
          else [])"

text \<open>
  \<^verbatim>\<open>await msg.reply(text)\<close> inside the \<^verbatim>\<open>try\<close>: the call, and what the handler sends when
  the call is rejected.
\<close>

definition reply_sends :: "outcome \<Rightarrow> chatId \<Rightarrow> string \<Rightarrow> UserChatState \<Rightarrow> send list" where
  "reply_sends replied chat text userState = Reply chat text # catch_sends replied chat userState"

text \<open>
  The \<^verbatim>\<open>finally\<close> block (lines 226-232) stores the chat's state into the tenant's container;
  the container, changed in place in the source, is stored under the tenant here.
\<close>

definition finally_store ::
  "enterpriseId \<Rightarrow> chatId \<Rightarrow> UserChatState \<Rightarrow> ClientState \<Rightarrow> send list \<Rightarrow> BotService \<Rightarrow> BotService" where
  "finally_store eid chat userState clientState sends s =
     s\<lparr>clientStates :=
         (clientStates s)(eid \<mapsto> clientState\<lparr>userStates := (userStates clientState)(chat \<mapsto> userState)\<rparr>),
       outbound := outbound s @ sends\<rparr>"

text \<open>
  \<^verbatim>\<open>handleMessage(enterpriseId, msg)\<close>. The first argument is the content of the data store,
  the second how the call of \<^verbatim>\<open>msg.reply\<close> ends, if the handler makes one. The test
  \<^verbatim>\<open>if (lastSentMessage)\<close> of line 187 is JavaScript's truthiness: \<^verbatim>\<open>null\<close> and the empty
  string fail it.
\<close>

definition handleMessage ::
  "Database \<Rightarrow> outcome \<Rightarrow> enterpriseId \<Rightarrow> Message \<Rightarrow> BotService \<Rightarrow> BotService" where
  "handleMessage db replied eid msg s =
     (if msg_fromMe msg \<or> msg_from msg = ''status@broadcast'' then s
      else
        case clientStates s eid of
          None \<Rightarrow> s
        | Some clientState \<Rightarrow>
           (case clients s eid of
              None \<Rightarrow> s
            | Some currentClient \<Rightarrow>
               (let chat = msg_from msg;
                    userState = getUserState clientState chat
                in
                if messageCount userState = 0 \<or> isEnding clientState chat then
                  (case prompt_findFirst db eid of
                     None \<Rightarrow> finally_store eid chat userState clientState [] s
                   | Some prompt \<Rightarrow>
                      (let userState' = userState\<lparr>messageCount := 1,
                                                  lastMessageBody := Some (prompt_body prompt)\<rparr>;
                           clientState' = clientState\<lparr>endingFlags := (endingFlags clientState)(chat \<mapsto> False)\<rparr>
                       in finally_store eid chat userState' clientState'
                            (reply_sends replied chat (prompt_body prompt) userState') s))
                else
                  (case messages_findFirst db eid (msg_body msg) of
                     None \<Rightarrow>
                       (case lastMessageBody userState of
                          None \<Rightarrow> finally_store eid chat userState clientState [] s
                        | Some lastSentMessage \<Rightarrow>
                            if lastSentMessage = []
                            then finally_store eid chat userState clientState [] s
                            else finally_store eid chat userState clientState
                                   (reply_sends replied chat lastSentMessage userState) s)
                   | Some reply \<Rightarrow>
                      (let userState' = userState\<lparr>messageCount := messageCount userState + 1,
                                                  lastMessageBody := Some (reply_body reply)\<rparr>;
                           clientState' = clientState\<lparr>endingFlags :=
                                            (endingFlags clientState)(chat \<mapsto> reply_ending reply)\<rparr>
                       in finally_store eid chat userState' clientState'
                            (reply_sends replied chat (reply_body reply) userState') s)))))"

subsection \<open>The life cycle of a tenant's session\<close>

text \<open>
  \<^verbatim>\<open>deleteSessionData(enterpriseId)\<close> removes the two credential folders of the tenant from
  the disk, retrying while the file system answers \<^verbatim>\<open>EBUSY\<close>. The disk is not part of the
  state; the call is recorded.
\<close>

definition deleteSessionData :: "enterpriseId \<Rightarrow> BotService \<Rightarrow> BotService" where
  "deleteSessionData eid s = s\<lparr>sessionDeletions := sessionDeletions s @ [eid]\<rparr>"

definition emit :: "event \<Rightarrow> BotService \<Rightarrow> BotService" where
  "emit e s = s\<lparr>emitted := emitted s @ [e]\<rparr>"

text \<open>
  \<^verbatim>\<open>initializeClient(enterpriseId)\<close> (lines 35-121). The first argument is how
  \<^verbatim>\<open>await client.initialize()\<close> ends. The result is the new state and the value returned:
  the client, or \<open>None\<close> for \<^verbatim>\<open>null\<close>.
\<close>

definition initializeClient :: "outcome \<Rightarrow> enterpriseId \<Rightarrow> BotService \<Rightarrow> BotService \<times> Client option" where
  "initializeClient started eid s =
     (case clients s eid of
        Some existing \<Rightarrow> (s, Some existing)
      | None \<Rightarrow>
         (let client = created s;
              s1 = s\<lparr>created := Suc (created s),
                     clients := (clients s)(eid \<mapsto> client),
                     clientStates := (clientStates s)(eid \<mapsto>
                        \<lparr>userStates = Map.empty, endingFlags = Map.empty\<rparr>)\<rparr>
          in case started of
               Resolves \<Rightarrow> (s1, Some client)
             | Rejects m \<Rightarrow>
                 (emit (ClientDisconnected eid)
                    (deleteSessionData eid
                       (s1\<lparr>clients := (clients s1)(eid := None),
                           clientStates := (clientStates s1)(eid := None)\<rparr>)),
                  None)))"

text \<open>
  \<^verbatim>\<open>disconnectClient(enterpriseId)\<close> (lines 236-266). The first argument is how the teardown
  of the client (\<^verbatim>\<open>client.destroy()\<close>, or \<^verbatim>\<open>client.logout()\<close> for a client without
  \<^verbatim>\<open>destroy\<close>) ends; a rejection is caught and logged, and the \<^verbatim>\<open>finally\<close> block runs
  in both cases.
\<close>

definition disconnect_finally :: "enterpriseId \<Rightarrow> BotService \<Rightarrow> BotService" where
  "disconnect_finally eid s =
     (let s1 = emit (ClientDisconnected eid) s;
          s2 = s1\<lparr>clients := (clients s1)(eid := None)\<rparr>;
          s3 = s2\<lparr>clientStates := (clientStates s2)(eid := None)\<rparr>
      in deleteSessionData eid s3)"

definition disconnectClient :: "outcome \<Rightarrow> enterpriseId \<Rightarrow> BotService \<Rightarrow> BotService" where
  "disconnectClient teardown eid s =
     (case clients s eid of
        None \<Rightarrow> s
      | Some client \<Rightarrow>
         (case teardown of
            Resolves \<Rightarrow> disconnect_finally eid s
          | Rejects m \<Rightarrow> disconnect_finally eid s))"

text \<open>
  The handlers that \<^verbatim>\<open>initializeClient\<close> registers on the client of a tenant
  (lines 70-106). The handler of \<^verbatim>\<open>message\<close> is \<open>handleMessage\<close>.
\<close>

definition on_qr :: "enterpriseId \<Rightarrow> string \<Rightarrow> BotService \<Rightarrow> BotService" where
  "on_qr eid qr s = emit (QrcodeCreated eid qr) s"

definition on_ready :: "enterpriseId \<Rightarrow> BotService \<Rightarrow> BotService" where
  "on_ready eid s =
     emit (ClientReady eid)
       (case clientStates s eid of
          None \<Rightarrow> s
        | Some clientState \<Rightarrow>
            s\<lparr>clientStates := (clientStates s)(eid \<mapsto> clientState\<lparr>endingFlags := Map.empty\<rparr>)\<rparr>)"

definition on_auth_failure :: "outcome \<Rightarrow> enterpriseId \<Rightarrow> BotService \<Rightarrow> BotService" where
  "on_auth_failure teardown eid s = disconnectClient teardown eid (emit (ClientDisconnected eid) s)"

definition on_disconnected :: "outcome \<Rightarrow> enterpriseId \<Rightarrow> BotService \<Rightarrow> BotService" where
  "on_disconnected teardown eid s = disconnectClient teardown eid (emit (ClientDisconnected eid) s)"

subsection \<open>Runs of the service\<close>

text \<open>
  What can happen to the service: a call of one of its two public operations, or an event of a
  tenant's client. \<^verbatim>\<open>onModuleDestroy\<close> calls \<^verbatim>\<open>disconnectClient\<close> for every tenant of
  \<^verbatim>\<open>clients\<close>, so it adds no state that a sequence of \<open>Disconnect\<close> operations does not
  reach.
\<close>

datatype operation =
    Initialize outcome enterpriseId
  | Disconnect outcome enterpriseId
  | Qr enterpriseId string
  | Ready enterpriseId
  | Inbound Database outcome enterpriseId Message
  | AuthFailure outcome enterpriseId
  | Disconnected outcome enterpriseId

fun step :: "BotService \<Rightarrow> operation \<Rightarrow> BotService" where
  "step s (Initialize started eid) = fst (initializeClient started eid s)"
| "step s (Disconnect teardown eid) = disconnectClient teardown eid s"
| "step s (Qr eid qr) = on_qr eid qr s"
| "step s (Ready eid) = on_ready eid s"
| "step s (Inbound db replied eid msg) = handleMessage db replied eid msg s"
| "step s (AuthFailure teardown eid) = on_auth_failure teardown eid s"
| "step s (Disconnected teardown eid) = on_disconnected teardown eid s"

definition run :: "operation list \<Rightarrow> BotService" where
  "run ops = foldl step initial ops"

text \<open>
  Two properties of a state of the service: the ending flag of a chat is set only when the
  chat's message count is positive, and a tenant has a client exactly when it has a container
  of conversation states.
\<close>

definition ending_is_counted :: "BotService \<Rightarrow> bool" where
  "ending_is_counted s \<longleftrightarrow>
     (\<forall>eid clientState chat. clientStates s eid = Some clientState \<longrightarrow>
        isEnding clientState chat \<longrightarrow> 0 < messageCount (getUserState clientState chat))"

definition same_tenants :: "BotService \<Rightarrow> bool" where
  "same_tenants s \<longleftrightarrow> dom (clients s) = dom (clientStates s)"

subsection \<open>Concrete inputs\<close>

text \<open>
  A tenant \<open>acme\<close> with the prompt \<open>Welcome\<close> and one reply, which ends the conversation:
  the trigger \<open>hi\<close> is answered with \<open>B\<close>.
\<close>

definition example_db :: Database where
  "example_db =
     \<lparr>prompt_table =
        [\<lparr>prompt_enterpriseId = ''acme'', prompt_available = True, prompt_body = ''Welcome''\<rparr>],
      messages_table =
        [\<lparr>reply_enterpriseId = ''acme'', reply_available = True, reply_trigger = ''hi'',
          reply_body = ''B'', reply_ending = True\<rparr>]\<rparr>"

text \<open>The same tenant with no prompt, and with a prompt whose body is the empty text.\<close>

definition promptless_db :: Database where
  "promptless_db = \<lparr>prompt_table = [], messages_table = messages_table example_db\<rparr>"

definition blank_db :: Database where
  "blank_db =
     \<lparr>prompt_table =
        [\<lparr>prompt_enterpriseId = ''acme'', prompt_available = True, prompt_body = []\<rparr>],
      messages_table = []\<rparr>"

definition msg_HI :: Message where
  "msg_HI = \<lparr>msg_fromMe = False, msg_from = ''c1'', msg_body = ''HI''\<rparr>"

definition msg_xyz :: Message where
  "msg_xyz = \<lparr>msg_fromMe = False, msg_from = ''c1'', msg_body = ''xyz''\<rparr>"

text \<open>
  States the service reaches: \<open>acme\<close> initialised; then one message of chat \<open>c1\<close> handled
  (the prompt was sent); then a second one handled, which the ending reply answered. The last
  one is \<open>acme\<close> after one message when its prompt is the empty text.
\<close>

definition live :: BotService where
  "live = run [Initialize Resolves ''acme'']"

definition prompted :: BotService where
  "prompted = run [Initialize Resolves ''acme'', Inbound example_db Resolves ''acme'' msg_HI]"

definition ended :: BotService where
  "ended = run [Initialize Resolves ''acme'', Inbound example_db Resolves ''acme'' msg_HI,
                Inbound example_db Resolves ''acme'' msg_HI]"

definition blank_prompted :: BotService where
  "blank_prompted = run [Initialize Resolves ''acme'', Inbound blank_db Resolves ''acme'' msg_HI]"

section \<open>Properties\<close>

subsection \<open>The lookups\<close>

lemma prompt_findFirst_SomeD:
  "prompt_findFirst db eid = Some p \<Longrightarrow>
     p \<in> set (prompt_table db) \<and> prompt_enterpriseId p = eid \<and> prompt_available p"
  by (auto simp: prompt_findFirst_def find_Some_iff)

lemma prompt_findFirst_None_iff:
  "prompt_findFirst db eid = None \<longleftrightarrow>
     (\<forall>p \<in> set (prompt_table db). \<not> (prompt_enterpriseId p = eid \<and> prompt_available p))"
  by (auto simp: prompt_findFirst_def find_None_iff)

lemma messages_findFirst_SomeD:
  "messages_findFirst db eid text = Some r \<Longrightarrow>
     r \<in> set (messages_table db) \<and> reply_matches eid text r"
  by (auto simp: messages_findFirst_def find_Some_iff)

lemma messages_findFirst_None_iff:
  "messages_findFirst db eid text = None \<longleftrightarrow>
     (\<forall>r \<in> set (messages_table db). \<not> reply_matches eid text r)"
  by (auto simp: messages_findFirst_def find_None_iff)

subsection \<open>The branches of handleMessage\<close>

lemma UserChatState_updated:
  "u\<lparr>messageCount := n, lastMessageBody := b\<rparr> = \<lparr>lastMessageBody = b, messageCount = n\<rparr>"
  by (cases u) simp

lemma handleMessage_prompt:
  assumes "\<not> msg_fromMe msg" and "msg_from msg \<noteq> ''status@broadcast''"
    and "clients s eid = Some client" and "clientStates s eid = Some cs"
    and "messageCount (getUserState cs (msg_from msg)) = 0 \<or> isEnding cs (msg_from msg)"
    and "prompt_findFirst db eid = Some prompt"
  shows "handleMessage db replied eid msg s =
     finally_store eid (msg_from msg)
       \<lparr>lastMessageBody = Some (prompt_body prompt), messageCount = 1\<rparr>
       (cs\<lparr>endingFlags := (endingFlags cs)(msg_from msg \<mapsto> False)\<rparr>)
       (reply_sends replied (msg_from msg) (prompt_body prompt)
          \<lparr>lastMessageBody = Some (prompt_body prompt), messageCount = 1\<rparr>) s"
  using assms by (auto simp: handleMessage_def Let_def UserChatState_updated)

lemma handleMessage_no_prompt:
  assumes "\<not> msg_fromMe msg" and "msg_from msg \<noteq> ''status@broadcast''"
    and "clients s eid = Some client" and "clientStates s eid = Some cs"
    and "messageCount (getUserState cs (msg_from msg)) = 0 \<or> isEnding cs (msg_from msg)"
    and "prompt_findFirst db eid = None"
  shows "handleMessage db replied eid msg s =
     finally_store eid (msg_from msg) (getUserState cs (msg_from msg)) cs [] s"
  using assms by (auto simp: handleMessage_def Let_def UserChatState_updated)

lemma handleMessage_reply:
  assumes "\<not> msg_fromMe msg" and "msg_from msg \<noteq> ''status@broadcast''"
    and "clients s eid = Some client" and "clientStates s eid = Some cs"
    and "0 < messageCount (getUserState cs (msg_from msg))" and "\<not> isEnding cs (msg_from msg)"
    and "messages_findFirst db eid (msg_body msg) = Some reply"
  shows "handleMessage db replied eid msg s =
     finally_store eid (msg_from msg)
       \<lparr>lastMessageBody = Some (reply_body reply),
          messageCount = messageCount (getUserState cs (msg_from msg)) + 1\<rparr>
       (cs\<lparr>endingFlags := (endingFlags cs)(msg_from msg \<mapsto> reply_ending reply)\<rparr>)
       (reply_sends replied (msg_from msg) (reply_body reply)
          \<lparr>lastMessageBody = Some (reply_body reply),
             messageCount = messageCount (getUserState cs (msg_from msg)) + 1\<rparr>) s"
  using assms by (auto simp: handleMessage_def Let_def UserChatState_updated)

lemma handleMessage_no_reply:
  assumes "\<not> msg_fromMe msg" and "msg_from msg \<noteq> ''status@broadcast''"
    and "clients s eid = Some client" and "clientStates s eid = Some cs"
    and "0 < messageCount (getUserState cs (msg_from msg))" and "\<not> isEnding cs (msg_from msg)"
    and "messages_findFirst db eid (msg_body msg) = None"
  shows "handleMessage db replied eid msg s =
     finally_store eid (msg_from msg) (getUserState cs (msg_from msg)) cs
       (case lastMessageBody (getUserState cs (msg_from msg)) of
          None \<Rightarrow> []
        | Some text \<Rightarrow>
            if text = [] then []
            else reply_sends replied (msg_from msg) text (getUserState cs (msg_from msg))) s"
  using assms by (auto simp: handleMessage_def Let_def split: option.splits)

text \<open>Storing the state a chat already has changes nothing.\<close>

lemma counted_is_stored:
  "0 < messageCount (getUserState cs chat) \<Longrightarrow> userStates cs chat = Some (getUserState cs chat)"
  by (auto simp: getUserState_def split: option.splits)

lemma finally_store_same:
  assumes "clientStates s eid = Some cs" and "userStates cs chat = Some u"
  shows "finally_store eid chat u cs sends s = s\<lparr>outbound := outbound s @ sends\<rparr>"
proof -
  have "(userStates cs)(chat \<mapsto> u) = userStates cs"
    using assms(2) by (rule map_upd_triv)
  moreover have "(clientStates s)(eid \<mapsto> cs) = clientStates s"
    using assms(1) by (rule map_upd_triv)
  ultimately show ?thesis
    by (simp add: finally_store_def)
qed

lemma catch_sends_cases:
  "catch_sends replied chat \<lparr>lastMessageBody = Some text, messageCount = n\<rparr> = [] \<or>
   catch_sends replied chat \<lparr>lastMessageBody = Some text, messageCount = n\<rparr> = [SendMessage chat text]"
  by (simp add: catch_sends_def split: outcome.splits)

lemma catch_sends_Resolves: "catch_sends Resolves chat u = []"
  by (simp add: catch_sends_def)

lemma conversationState_finally_store:
  "conversationState (finally_store eid chat u cs sends s) eid chat =
     Some (u, isEnding cs chat)"
  by (simp add: conversationState_def finally_store_def getUserState_def isEnding_def)

lemma outbound_finally_store:
  "outbound (finally_store eid chat u cs sends s) = outbound s @ sends"
  by (simp add: finally_store_def)

lemma conversationState_SomeD:
  "conversationState s eid chat = Some (u, ending) \<Longrightarrow>
     \<exists>cs. clientStates s eid = Some cs \<and> getUserState cs chat = u \<and> isEnding cs chat = ending"
  by (auto simp: conversationState_def split: option.splits)

subsection \<open>The concrete states\<close>

lemmas service_defs = run_def initial_def initializeClient_def handleMessage_def getUserState_def
  isEnding_def prompt_findFirst_def messages_findFirst_def finally_store_def reply_sends_def
  catch_sends_def Let_def

lemma hi_matches_HI: "equals_insensitive ''hi'' ''HI''"
  by code_simp

lemma hi_differs_xyz: "\<not> equals_insensitive ''hi'' ''xyz''"
  by code_simp

lemma live_eq:
  "live = \<lparr>clients = [''acme'' \<mapsto> 0],
     clientStates = [''acme'' \<mapsto> \<lparr>userStates = Map.empty, endingFlags = Map.empty\<rparr>],
     emitted = [], outbound = [], sessionDeletions = [], created = 1\<rparr>"
  by (simp add: live_def service_defs)

lemma prompted_eq:
  "prompted = \<lparr>clients = [''acme'' \<mapsto> 0],
     clientStates = [''acme'' \<mapsto>
       \<lparr>userStates = [''c1'' \<mapsto> \<lparr>lastMessageBody = Some ''Welcome'', messageCount = 1\<rparr>],
        endingFlags = [''c1'' \<mapsto> False]\<rparr>],
     emitted = [], outbound = [Reply ''c1'' ''Welcome''], sessionDeletions = [], created = 1\<rparr>"
  by (simp add: prompted_def service_defs example_db_def msg_HI_def)

lemma ended_eq:
  "ended = \<lparr>clients = [''acme'' \<mapsto> 0],
     clientStates = [''acme'' \<mapsto>
       \<lparr>userStates = [''c1'' \<mapsto> \<lparr>lastMessageBody = Some ''B'', messageCount = 2\<rparr>],
        endingFlags = [''c1'' \<mapsto> True]\<rparr>],
     emitted = [], outbound = [Reply ''c1'' ''Welcome'', Reply ''c1'' ''B''],
     sessionDeletions = [], created = 1\<rparr>"
  by (simp add: ended_def service_defs example_db_def msg_HI_def reply_matches_def hi_matches_HI
      numeral_2_eq_2)

lemma blank_prompted_eq:
  "blank_prompted = \<lparr>clients = [''acme'' \<mapsto> 0],
     clientStates = [''acme'' \<mapsto>
       \<lparr>userStates = [''c1'' \<mapsto> \<lparr>lastMessageBody = Some [], messageCount = 1\<rparr>],
        endingFlags = [''c1'' \<mapsto> False]\<rparr>],
     emitted = [], outbound = [Reply ''c1'' []], sessionDeletions = [], created = 1\<rparr>"
  by (simp add: blank_prompted_def service_defs blank_db_def msg_HI_def)

subsection \<open>The start of a conversation\<close>

text \<open>
  Claim C1. A message is handled for a tenant with a live session; the conversation state of
  its chat has \<open>messageCount = 0\<close> or its ending flag set, and the tenant has an available
  prompt record. Then the lookup fetches such a record, and whatever the body of the message
  is, the state of the chat becomes \<open>messageCount = 1\<close>, ending flag \<open>False\<close>,
  \<open>lastMessageBody\<close> the prompt's body, and the handler makes exactly one call of
  \<^verbatim>\<open>msg.reply\<close>, with the prompt's body. Nothing else is handed to the transport when that
  call resolves; when it is rejected, the only thing that can follow is the handler's single
  new send of the same body to the same chat.
\<close>

theorem C1_start_of_conversation:
  assumes "\<not> msg_fromMe msg" and "msg_from msg \<noteq> ''status@broadcast''"
    and "clients s eid = Some client"
    and "conversationState s eid (msg_from msg) = Some (u, ending)"
    and "messageCount u = 0 \<or> ending"
    and "p \<in> set (prompt_table db)" and "prompt_enterpriseId p = eid" and "prompt_available p"
  shows "\<exists>prompt retry.
      prompt_findFirst db eid = Some prompt \<and>
      prompt \<in> set (prompt_table db) \<and> prompt_enterpriseId prompt = eid \<and> prompt_available prompt \<and>
      conversationState (handleMessage db replied eid msg s) eid (msg_from msg) =
        Some (\<lparr>lastMessageBody = Some (prompt_body prompt), messageCount = 1\<rparr>, False) \<and>
      outbound (handleMessage db replied eid msg s) =
        outbound s @ Reply (msg_from msg) (prompt_body prompt) # retry \<and>
      (retry = [] \<or> retry = [SendMessage (msg_from msg) (prompt_body prompt)]) \<and>
      (replied = Resolves \<longrightarrow> retry = [])"
proof -
  from assms(4) obtain cs where cs: "clientStates s eid = Some cs"
    and u: "getUserState cs (msg_from msg) = u" and e: "isEnding cs (msg_from msg) = ending"
    by (auto dest: conversationState_SomeD)
  from assms(6-8) have "prompt_findFirst db eid \<noteq> None"
    by (auto simp: prompt_findFirst_None_iff)
  then obtain prompt where found: "prompt_findFirst db eid = Some prompt"
    by auto
  let ?u' = "\<lparr>lastMessageBody = Some (prompt_body prompt), messageCount = 1\<rparr>"
  let ?retry = "catch_sends replied (msg_from msg) ?u'"
  have branch: "messageCount (getUserState cs (msg_from msg)) = 0 \<or> isEnding cs (msg_from msg)"
    using assms(5) u e by simp
  note run = handleMessage_prompt [OF assms(1,2,3) cs branch found, of replied]
  have "conversationState (handleMessage db replied eid msg s) eid (msg_from msg) = Some (?u', False)"
    by (simp add: run conversationState_finally_store isEnding_def)
  moreover have "outbound (handleMessage db replied eid msg s) =
      outbound s @ Reply (msg_from msg) (prompt_body prompt) # ?retry"
    by (simp add: run outbound_finally_store reply_sends_def)
  moreover have "?retry = [] \<or> ?retry = [SendMessage (msg_from msg) (prompt_body prompt)]"
    by (rule catch_sends_cases)
  moreover have "replied = Resolves \<longrightarrow> ?retry = []"
    by (simp add: catch_sends_Resolves)
  ultimately show ?thesis
    using found prompt_findFirst_SomeD [OF found] by blast
qed

theorem C1_witness:
  "\<not> msg_fromMe msg_HI \<and> msg_from msg_HI \<noteq> ''status@broadcast'' \<and>
   clients live ''acme'' = Some 0 \<and>
   conversationState live ''acme'' ''c1'' = Some (\<lparr>lastMessageBody = None, messageCount = 0\<rparr>, False) \<and>
   prompt_findFirst example_db ''acme'' =
     Some \<lparr>prompt_enterpriseId = ''acme'', prompt_available = True, prompt_body = ''Welcome''\<rparr> \<and>
   conversationState (handleMessage example_db Resolves ''acme'' msg_HI live) ''acme'' ''c1'' =
     Some (\<lparr>lastMessageBody = Some ''Welcome'', messageCount = 1\<rparr>, False) \<and>
   outbound (handleMessage example_db Resolves ''acme'' msg_HI live) = [Reply ''c1'' ''Welcome'']"
proof -
  let ?p = "\<lparr>prompt_enterpriseId = ''acme'', prompt_available = True, prompt_body = ''Welcome''\<rparr>"
  have h1: "\<not> msg_fromMe msg_HI" and h2: "msg_from msg_HI \<noteq> ''status@broadcast''"
    and sender: "msg_from msg_HI = ''c1''"
    by (simp_all add: msg_HI_def)
  have h3: "clients live ''acme'' = Some 0"
    by (simp add: live_eq)
  have h4: "conversationState live ''acme'' (msg_from msg_HI) =
      Some (\<lparr>lastMessageBody = None, messageCount = 0\<rparr>, False)"
    by (simp add: sender live_eq conversationState_def getUserState_def isEnding_def)
  have h5: "messageCount \<lparr>lastMessageBody = None, messageCount = 0\<rparr> = 0 \<or> False"
    by simp
  have h6: "?p \<in> set (prompt_table example_db)" and h7: "prompt_enterpriseId ?p = ''acme''"
    and h8: "prompt_available ?p"
    by (simp_all add: example_db_def)
  have found: "prompt_findFirst example_db ''acme'' = Some ?p"
    by (simp add: prompt_findFirst_def example_db_def)
  from C1_start_of_conversation [OF h1 h2 h3 h4 h5 h6 h7 h8, of Resolves]
  obtain prompt retry where fetched: "prompt_findFirst example_db ''acme'' = Some prompt"
    and post: "conversationState (handleMessage example_db Resolves ''acme'' msg_HI live) ''acme'' (msg_from msg_HI) =
       Some (\<lparr>lastMessageBody = Some (prompt_body prompt), messageCount = 1\<rparr>, False)"
      "outbound (handleMessage example_db Resolves ''acme'' msg_HI live) =
       outbound live @ Reply (msg_from msg_HI) (prompt_body prompt) # retry"
      "retry = []"
    by blast
  from fetched found have "prompt = ?p"
    by simp
  with post have
    "conversationState (handleMessage example_db Resolves ''acme'' msg_HI live) ''acme'' ''c1'' =
       Some (\<lparr>lastMessageBody = Some ''Welcome'', messageCount = 1\<rparr>, False)"
    "outbound (handleMessage example_db Resolves ''acme'' msg_HI live) = [Reply ''c1'' ''Welcome'']"
    by (simp_all add: sender live_eq)
  with h1 h2 h3 h4 found show ?thesis
    by (simp add: sender)
qed

subsection \<open>A trigger that matches\<close>

text \<open>
  Claim C2. A message is handled for a tenant with a live session; the conversation state of
  its chat has \<open>messageCount > 0\<close> and no ending flag, and the tenant has an available reply
  whose trigger equals the body of the message when case is ignored. Then the lookup fetches
  such a reply; \<open>messageCount\<close> grows by one, \<open>lastMessageBody\<close> becomes the reply's body,
  the ending flag becomes the reply's \<open>ending\<close> field, and the reply's body is sent to the
  chat with \<^verbatim>\<open>msg.reply\<close>.
\<close>

theorem C2_trigger_match:
  assumes "\<not> msg_fromMe msg" and "msg_from msg \<noteq> ''status@broadcast''"
    and "clients s eid = Some client"
    and "conversationState s eid (msg_from msg) = Some (u, False)"
    and "0 < messageCount u"
    and "r \<in> set (messages_table db)"
    and "reply_enterpriseId r = eid" and "reply_available r"
    and "equals_insensitive (reply_trigger r) (msg_body msg)"
  shows "\<exists>reply retry.
      messages_findFirst db eid (msg_body msg) = Some reply \<and>
      reply \<in> set (messages_table db) \<and> reply_enterpriseId reply = eid \<and> reply_available reply \<and>
      equals_insensitive (reply_trigger reply) (msg_body msg) \<and>
      conversationState (handleMessage db replied eid msg s) eid (msg_from msg) =
        Some (\<lparr>lastMessageBody = Some (reply_body reply), messageCount = messageCount u + 1\<rparr>,
              reply_ending reply) \<and>
      outbound (handleMessage db replied eid msg s) =
        outbound s @ Reply (msg_from msg) (reply_body reply) # retry \<and>
      (retry = [] \<or> retry = [SendMessage (msg_from msg) (reply_body reply)]) \<and>
      (replied = Resolves \<longrightarrow> retry = [])"
proof -
  from assms(4) obtain cs where cs: "clientStates s eid = Some cs"
    and u: "getUserState cs (msg_from msg) = u" and e: "\<not> isEnding cs (msg_from msg)"
    by (auto dest: conversationState_SomeD)
  from assms(6-9) have "messages_findFirst db eid (msg_body msg) \<noteq> None"
    by (auto simp: messages_findFirst_None_iff reply_matches_def)
  then obtain reply where found: "messages_findFirst db eid (msg_body msg) = Some reply"
    by auto
  let ?u' = "\<lparr>lastMessageBody = Some (reply_body reply), messageCount = messageCount u + 1\<rparr>"
  let ?retry = "catch_sends replied (msg_from msg) ?u'"
  have counted: "0 < messageCount (getUserState cs (msg_from msg))"
    using assms(5) u by simp
  note run = handleMessage_reply [OF assms(1,2,3) cs counted e found, of replied]
  have "conversationState (handleMessage db replied eid msg s) eid (msg_from msg) =
      Some (?u', reply_ending reply)"
    by (simp add: run u conversationState_finally_store isEnding_def)
  moreover have "outbound (handleMessage db replied eid msg s) =
      outbound s @ Reply (msg_from msg) (reply_body reply) # ?retry"
    by (simp add: run u outbound_finally_store reply_sends_def)
  moreover have "?retry = [] \<or> ?retry = [SendMessage (msg_from msg) (reply_body reply)]"
    by (rule catch_sends_cases)
  moreover have "replied = Resolves \<longrightarrow> ?retry = []"
    by (simp add: catch_sends_Resolves)
  ultimately show ?thesis
    using found messages_findFirst_SomeD [OF found] by (auto simp: reply_matches_def)
qed

theorem C2_witness:
  "\<not> msg_fromMe msg_HI \<and> msg_from msg_HI \<noteq> ''status@broadcast'' \<and>
   clients prompted ''acme'' = Some 0 \<and>
   conversationState prompted ''acme'' ''c1'' =
     Some (\<lparr>lastMessageBody = Some ''Welcome'', messageCount = 1\<rparr>, False) \<and>
   messages_findFirst example_db ''acme'' ''HI'' =
     Some \<lparr>reply_enterpriseId = ''acme'', reply_available = True, reply_trigger = ''hi'',
            reply_body = ''B'', reply_ending = True\<rparr> \<and>
   conversationState (handleMessage example_db Resolves ''acme'' msg_HI prompted) ''acme'' ''c1'' =
     Some (\<lparr>lastMessageBody = Some ''B'', messageCount = 2\<rparr>, True) \<and>
   outbound (handleMessage example_db Resolves ''acme'' msg_HI prompted) =
     [Reply ''c1'' ''Welcome'', Reply ''c1'' ''B'']"
proof -
  let ?r = "\<lparr>reply_enterpriseId = ''acme'', reply_available = True, reply_trigger = ''hi'',
              reply_body = ''B'', reply_ending = True\<rparr>"
  let ?u = "\<lparr>lastMessageBody = Some ''Welcome'', messageCount = 1\<rparr>"
  have h1: "\<not> msg_fromMe msg_HI" and h2: "msg_from msg_HI \<noteq> ''status@broadcast''"
    and sender: "msg_from msg_HI = ''c1''" and inbound: "msg_body msg_HI = ''HI''"
    by (simp_all add: msg_HI_def)
  have h3: "clients prompted ''acme'' = Some 0"
    by (simp add: prompted_eq)
  have h4: "conversationState prompted ''acme'' (msg_from msg_HI) = Some (?u, False)"
    by (simp add: sender prompted_eq conversationState_def getUserState_def isEnding_def)
  have h5: "0 < messageCount ?u"
    by simp
  have h6: "?r \<in> set (messages_table example_db)" and h7: "reply_enterpriseId ?r = ''acme''"
    and h8: "reply_available ?r"
    by (simp_all add: example_db_def)
  have h9: "equals_insensitive (reply_trigger ?r) (msg_body msg_HI)"
    by (simp add: inbound hi_matches_HI)
  have found: "messages_findFirst example_db ''acme'' ''HI'' = Some ?r"
    by (simp add: messages_findFirst_def example_db_def reply_matches_def hi_matches_HI)
  from C2_trigger_match [OF h1 h2 h3 h4 h5 h6 h7 h8 h9, of Resolves]
  obtain reply retry where fetched: "messages_findFirst example_db ''acme'' (msg_body msg_HI) = Some reply"
    and post: "conversationState (handleMessage example_db Resolves ''acme'' msg_HI prompted) ''acme'' (msg_from msg_HI) =
       Some (\<lparr>lastMessageBody = Some (reply_body reply), messageCount = messageCount ?u + 1\<rparr>,
             reply_ending reply)"
      "outbound (handleMessage example_db Resolves ''acme'' msg_HI prompted) =
       outbound prompted @ Reply (msg_from msg_HI) (reply_body reply) # retry"
      "retry = []"
    by blast
  from fetched found have "reply = ?r"
    by (simp add: inbound)
  with post have
    "conversationState (handleMessage example_db Resolves ''acme'' msg_HI prompted) ''acme'' ''c1'' =
       Some (\<lparr>lastMessageBody = Some ''B'', messageCount = 2\<rparr>, True)"
    "outbound (handleMessage example_db Resolves ''acme'' msg_HI prompted) =
       [Reply ''c1'' ''Welcome'', Reply ''c1'' ''B'']"
    by (simp_all add: sender prompted_eq)
  with h1 h2 h3 h4 found show ?thesis
    by (simp add: sender)
qed

subsection \<open>No reply matches\<close>

lemma prompted_xyz:
  "\<not> msg_fromMe msg_xyz" "msg_from msg_xyz \<noteq> ''status@broadcast''"
  "msg_from msg_xyz = ''c1''" "msg_body msg_xyz = ''xyz''"
  by (simp_all add: msg_xyz_def)

theorem C3_counterexample:
  "\<not> msg_fromMe msg_xyz \<and> msg_from msg_xyz \<noteq> ''status@broadcast'' \<and>
   clients blank_prompted ''acme'' = Some 0 \<and>
   conversationState blank_prompted ''acme'' ''c1'' =
     Some (\<lparr>lastMessageBody = Some '''', messageCount = 1\<rparr>, False) \<and>
   messages_table blank_db = [] \<and>
   messages_findFirst blank_db ''acme'' (msg_body msg_xyz) = None \<and>
   outbound blank_prompted = [Reply ''c1'' ''''] \<and>
   outbound (handleMessage blank_db Resolves ''acme'' msg_xyz blank_prompted) = [Reply ''c1'' '''']"
  by (simp add: prompted_xyz blank_prompted_eq blank_db_def conversationState_def
      handleMessage_def getUserState_def isEnding_def messages_findFirst_def finally_store_def
      Let_def)

text \<open>
  Claim C3, amended. A message is handled for a tenant with a live session; the conversation
  state of its chat has \<open>messageCount > 0\<close> and no ending flag, and no available reply of
  the tenant matches the body. Then the whole state of the service is as before: count, ending
  flag and last body of every chat are unchanged. When the last body is neither \<^verbatim>\<open>null\<close> nor
  the empty text it is sent again with \<^verbatim>\<open>msg.reply\<close>, unchanged; when it is \<^verbatim>\<open>null\<close> or
  the empty text, nothing is sent.
\<close>

theorem C3_no_match:
  assumes "\<not> msg_fromMe msg" and "msg_from msg \<noteq> ''status@broadcast''"
    and "clients s eid = Some client"
    and "conversationState s eid (msg_from msg) = Some (u, False)"
    and "0 < messageCount u"
    and "\<forall>r \<in> set (messages_table db). \<not> reply_matches eid (msg_body msg) r"
  shows "\<exists>sends.
      handleMessage db replied eid msg s = s\<lparr>outbound := outbound s @ sends\<rparr> \<and>
      conversationState (handleMessage db replied eid msg s) eid (msg_from msg) = Some (u, False) \<and>
      (case lastMessageBody u of
         None \<Rightarrow> sends = []
       | Some body \<Rightarrow>
           if body = [] then sends = []
           else \<exists>retry. sends = Reply (msg_from msg) body # retry \<and>
                  (retry = [] \<or> retry = [SendMessage (msg_from msg) body]) \<and>
                  (replied = Resolves \<longrightarrow> retry = []))"
proof -
  from assms(4) obtain cs where cs: "clientStates s eid = Some cs"
    and u: "getUserState cs (msg_from msg) = u" and e: "\<not> isEnding cs (msg_from msg)"
    by (auto dest: conversationState_SomeD)
  have none: "messages_findFirst db eid (msg_body msg) = None"
    using assms(6) by (simp add: messages_findFirst_None_iff)
  have counted: "0 < messageCount (getUserState cs (msg_from msg))"
    using assms(5) u by simp
  have stored: "userStates cs (msg_from msg) = Some u"
    using counted_is_stored [OF counted] u by simp
  define sends where "sends =
    (case lastMessageBody u of
       None \<Rightarrow> []
     | Some body \<Rightarrow> if body = [] then [] else reply_sends replied (msg_from msg) body u)"
  have run: "handleMessage db replied eid msg s = s\<lparr>outbound := outbound s @ sends\<rparr>"
    unfolding handleMessage_no_reply [OF assms(1,2,3) cs counted e none, of replied] u sends_def
    by (rule finally_store_same [OF cs stored])
  have same: "conversationState (handleMessage db replied eid msg s) eid (msg_from msg) = Some (u, False)"
    using assms(4) by (simp add: run conversationState_def)
  have shape: "case lastMessageBody u of
         None \<Rightarrow> sends = []
       | Some body \<Rightarrow>
           if body = [] then sends = []
           else \<exists>retry. sends = Reply (msg_from msg) body # retry \<and>
                  (retry = [] \<or> retry = [SendMessage (msg_from msg) body]) \<and>
                  (replied = Resolves \<longrightarrow> retry = [])"
  proof (cases "lastMessageBody u")
    case None
    then show ?thesis by (simp add: sends_def)
  next
    case (Some body)
    then have "u = \<lparr>lastMessageBody = Some body, messageCount = messageCount u\<rparr>"
      by (cases u) simp
    then have "catch_sends replied (msg_from msg) u = [] \<or>
        catch_sends replied (msg_from msg) u = [SendMessage (msg_from msg) body]"
      using catch_sends_cases [of replied "msg_from msg" body "messageCount u"] by simp
    then show ?thesis
      using Some by (auto simp: sends_def reply_sends_def catch_sends_Resolves)
  qed
  from run same shape show ?thesis
    by blast
qed

theorem C3_witness:
  "\<not> msg_fromMe msg_xyz \<and> msg_from msg_xyz \<noteq> ''status@broadcast'' \<and>
   clients prompted ''acme'' = Some 0 \<and>
   conversationState prompted ''acme'' ''c1'' =
     Some (\<lparr>lastMessageBody = Some ''Welcome'', messageCount = 1\<rparr>, False) \<and>
   messages_findFirst example_db ''acme'' ''xyz'' = None \<and>
   handleMessage example_db Resolves ''acme'' msg_xyz prompted =
     prompted\<lparr>outbound := [Reply ''c1'' ''Welcome'', Reply ''c1'' ''Welcome'']\<rparr>"
proof -
  let ?u = "\<lparr>lastMessageBody = Some ''Welcome'', messageCount = 1\<rparr>"
  note h1 = prompted_xyz(1) and h2 = prompted_xyz(2)
  have h3: "clients prompted ''acme'' = Some 0"
    by (simp add: prompted_eq)
  have h4: "conversationState prompted ''acme'' (msg_from msg_xyz) = Some (?u, False)"
    by (simp add: prompted_xyz prompted_eq conversationState_def getUserState_def isEnding_def)
  have h5: "0 < messageCount ?u"
    by simp
  have h6: "\<forall>r \<in> set (messages_table example_db). \<not> reply_matches ''acme'' (msg_body msg_xyz) r"
    by (simp add: example_db_def reply_matches_def prompted_xyz hi_differs_xyz)
  have none: "messages_findFirst example_db ''acme'' ''xyz'' = None"
    using h6 by (simp add: messages_findFirst_None_iff prompted_xyz)
  from C3_no_match [OF h1 h2 h3 h4 h5 h6, of Resolves]
  obtain sends where
    run: "handleMessage example_db Resolves ''acme'' msg_xyz prompted =
       prompted\<lparr>outbound := outbound prompted @ sends\<rparr>"
    and shape: "\<exists>retry. sends = Reply (msg_from msg_xyz) ''Welcome'' # retry \<and>
           (Resolves = Resolves \<longrightarrow> retry = [])"
    by auto
  from shape have "sends = [Reply ''c1'' ''Welcome'']"
    by (auto simp: prompted_xyz)
  with run have "handleMessage example_db Resolves ''acme'' msg_xyz prompted =
     prompted\<lparr>outbound := [Reply ''c1'' ''Welcome'', Reply ''c1'' ''Welcome'']\<rparr>"
    by (simp add: prompted_eq)
  with h1 h2 h3 h4 none show ?thesis
    by (simp add: prompted_xyz)
qed

subsection \<open>No prompt\<close>

text \<open>
  Claim C8. A message is handled for a tenant with a live session; the conversation state of
  its chat has \<open>messageCount = 0\<close> or its ending flag set, and the tenant has no available
  prompt record. Then nothing is sent, no event is emitted, and the conversation state of
  every chat of every tenant reads as before. In the tenant's container the ending flags are
  unchanged and every chat that had an entry keeps it; the \<^verbatim>\<open>finally\<close> block stores the
  state of the chat of the message, which for a chat without an entry is the state
  \<open>(null, 0)\<close> that such a chat is read as.
\<close>

theorem C8_no_prompt:
  assumes "\<not> msg_fromMe msg" and "msg_from msg \<noteq> ''status@broadcast''"
    and "clients s eid = Some client"
    and "clientStates s eid = Some cs"
    and "messageCount (getUserState cs (msg_from msg)) = 0 \<or> isEnding cs (msg_from msg)"
    and "\<forall>p \<in> set (prompt_table db). \<not> (prompt_enterpriseId p = eid \<and> prompt_available p)"
  shows "outbound (handleMessage db replied eid msg s) = outbound s \<and>
      emitted (handleMessage db replied eid msg s) = emitted s \<and>
      clients (handleMessage db replied eid msg s) = clients s \<and>
      (\<forall>tenant chat. conversationState (handleMessage db replied eid msg s) tenant chat =
                      conversationState s tenant chat) \<and>
      (\<exists>cs'. clientStates (handleMessage db replied eid msg s) eid = Some cs' \<and>
             endingFlags cs' = endingFlags cs \<and>
             (\<forall>chat v. userStates cs chat = Some v \<longrightarrow> userStates cs' chat = Some v) \<and>
             userStates cs' = (userStates cs)(msg_from msg \<mapsto> getUserState cs (msg_from msg)))"
proof -
  let ?chat = "msg_from msg"
  let ?cs' = "cs\<lparr>userStates := (userStates cs)(?chat \<mapsto> getUserState cs ?chat)\<rparr>"
  have none: "prompt_findFirst db eid = None"
    using assms(6) by (simp add: prompt_findFirst_None_iff)
  have run: "handleMessage db replied eid msg s =
      s\<lparr>clientStates := (clientStates s)(eid \<mapsto> ?cs')\<rparr>"
    by (simp add: handleMessage_no_prompt [OF assms(1,2,3,4,5) none] finally_store_def)
  have reads: "getUserState ?cs' chat = getUserState cs chat" "isEnding ?cs' chat = isEnding cs chat"
    for chat
    by (simp_all add: getUserState_def isEnding_def)
  have "conversationState (handleMessage db replied eid msg s) tenant chat =
      conversationState s tenant chat" for tenant chat
    using assms(4) by (simp add: run conversationState_def reads)
  moreover have "userStates cs chat = Some v \<longrightarrow> userStates ?cs' chat = Some v" for chat v
    by (auto simp: getUserState_def)
  ultimately show ?thesis
    by (simp add: run)
qed

theorem C8_witness:
  "\<not> msg_fromMe msg_HI \<and> msg_from msg_HI \<noteq> ''status@broadcast'' \<and>
   clients live ''acme'' = Some 0 \<and>
   prompt_table promptless_db = [] \<and>
   outbound (handleMessage promptless_db Resolves ''acme'' msg_HI live) = [] \<and>
   conversationState live ''acme'' ''c1'' =
     Some (\<lparr>lastMessageBody = None, messageCount = 0\<rparr>, False) \<and>
   conversationState (handleMessage promptless_db Resolves ''acme'' msg_HI live) ''acme'' ''c1'' =
     Some (\<lparr>lastMessageBody = None, messageCount = 0\<rparr>, False)"
proof -
  let ?cs = "\<lparr>userStates = Map.empty, endingFlags = Map.empty\<rparr> :: ClientState"
  have h1: "\<not> msg_fromMe msg_HI" and h2: "msg_from msg_HI \<noteq> ''status@broadcast''"
    and sender: "msg_from msg_HI = ''c1''"
    by (simp_all add: msg_HI_def)
  have h3: "clients live ''acme'' = Some 0" and h4: "clientStates live ''acme'' = Some ?cs"
    by (simp_all add: live_eq)
  have h5: "messageCount (getUserState ?cs (msg_from msg_HI)) = 0 \<or> isEnding ?cs (msg_from msg_HI)"
    by (simp add: getUserState_def)
  have h6: "\<forall>p \<in> set (prompt_table promptless_db).
      \<not> (prompt_enterpriseId p = ''acme'' \<and> prompt_available p)"
    by (simp add: promptless_db_def)
  have before: "conversationState live ''acme'' ''c1'' =
      Some (\<lparr>lastMessageBody = None, messageCount = 0\<rparr>, False)"
    by (simp add: live_eq conversationState_def getUserState_def isEnding_def)
  from C8_no_prompt [OF h1 h2 h3 h4 h5 h6, of Resolves]
  have "outbound (handleMessage promptless_db Resolves ''acme'' msg_HI live) = outbound live"
    and "conversationState (handleMessage promptless_db Resolves ''acme'' msg_HI live) ''acme'' ''c1'' =
      conversationState live ''acme'' ''c1''"
    by blast+
  with h1 h2 h3 before show ?thesis
    by (simp add: live_eq promptless_db_def)
qed

subsection \<open>Disconnecting\<close>

lemma disconnectClient_live:
  "clients s eid = Some client \<Longrightarrow> disconnectClient teardown eid s = disconnect_finally eid s"
  by (simp add: disconnectClient_def split: outcome.splits)

lemma disconnect_finally_eq:
  "disconnect_finally eid s =
     s\<lparr>emitted := emitted s @ [ClientDisconnected eid],
       clients := (clients s)(eid := None),
       clientStates := (clientStates s)(eid := None),
       sessionDeletions := sessionDeletions s @ [eid]\<rparr>"
  by (simp add: disconnect_finally_def emit_def deleteSessionData_def)

theorem C4_counterexample:
  "clients live ''acme'' = Some 0 \<and>
   emitted live = [] \<and>
   emitted (on_disconnected Resolves ''acme'' live) =
     [ClientDisconnected ''acme'', ClientDisconnected ''acme''] \<and>
   count_list (emitted (on_disconnected Resolves ''acme'' live)) (ClientDisconnected ''acme'') = 2"
  by (simp add: live_eq on_disconnected_def disconnectClient_def disconnect_finally_eq emit_def)

text \<open>
  Claim C4, amended. Every disconnect of a tenant with a live session produces a
  \<^verbatim>\<open>client.disconnected\<close> notification for that tenant: exactly one when it is an explicit
  disconnect request, and exactly two when it is started by the transport's
  \<^verbatim>\<open>disconnected\<close> callback or by an authentication failure, whose handlers emit the
  notification and then call \<^verbatim>\<open>disconnectClient\<close>, which emits it again.
\<close>

theorem C4_disconnected_notifications:
  assumes "clients s eid = Some client"
  shows "emitted (disconnectClient teardown eid s) = emitted s @ [ClientDisconnected eid] \<and>
     emitted (on_disconnected teardown eid s) =
       emitted s @ [ClientDisconnected eid, ClientDisconnected eid] \<and>
     emitted (on_auth_failure teardown eid s) =
       emitted s @ [ClientDisconnected eid, ClientDisconnected eid]"
proof -
  have "clients (emit (ClientDisconnected eid) s) eid = Some client"
    using assms by (simp add: emit_def)
  then have "disconnectClient teardown eid (emit (ClientDisconnected eid) s) =
      disconnect_finally eid (emit (ClientDisconnected eid) s)"
    by (rule disconnectClient_live)
  then show ?thesis
    using assms
    by (simp add: on_disconnected_def on_auth_failure_def disconnectClient_live
        disconnect_finally_eq emit_def)
qed

theorem C4_witness:
  "clients live ''acme'' = Some 0 \<and>
   emitted (disconnectClient Resolves ''acme'' live) = [ClientDisconnected ''acme''] \<and>
   emitted (on_auth_failure Resolves ''acme'' live) =
     [ClientDisconnected ''acme'', ClientDisconnected ''acme'']"
proof -
  have h: "clients live ''acme'' = Some 0"
    by (simp add: live_eq)
  from C4_disconnected_notifications [OF h, of Resolves] h show ?thesis
    by (simp add: live_eq)
qed

text \<open>
  Claim C5. For a tenant with a live session, \<^verbatim>\<open>disconnectClient\<close>, whether the teardown of
  the client resolves or is rejected, emits a \<^verbatim>\<open>client.disconnected\<close> notification, removes
  the tenant's entry of \<^verbatim>\<open>clients\<close> and its whole container of conversation states, and
  calls \<^verbatim>\<open>deleteSessionData\<close> for the tenant. Afterwards the tenant has no session and no
  conversation state for any chat; the other tenants are untouched.
\<close>

theorem C5_disconnect_cleans_up:
  assumes "clients s eid = Some client"
  shows "emitted (disconnectClient teardown eid s) = emitted s @ [ClientDisconnected eid] \<and>
     clients (disconnectClient teardown eid s) eid = None \<and>
     clientStates (disconnectClient teardown eid s) eid = None \<and>
     (\<forall>chat. conversationState (disconnectClient teardown eid s) eid chat = None) \<and>
     sessionDeletions (disconnectClient teardown eid s) = sessionDeletions s @ [eid] \<and>
     (\<forall>other. other \<noteq> eid \<longrightarrow>
        clients (disconnectClient teardown eid s) other = clients s other \<and>
        clientStates (disconnectClient teardown eid s) other = clientStates s other)"
  by (simp add: disconnectClient_live [OF assms] disconnect_finally_eq conversationState_def)

theorem C5_witness:
  "clients prompted ''acme'' = Some 0 \<and>
   conversationState prompted ''acme'' ''c1'' =
     Some (\<lparr>lastMessageBody = Some ''Welcome'', messageCount = 1\<rparr>, False) \<and>
   emitted (disconnectClient (Rejects (Some ''Target closed'')) ''acme'' prompted) =
     [ClientDisconnected ''acme''] \<and>
   clients (disconnectClient (Rejects (Some ''Target closed'')) ''acme'' prompted) ''acme'' = None \<and>
   conversationState (disconnectClient (Rejects (Some ''Target closed'')) ''acme'' prompted)
     ''acme'' ''c1'' = None \<and>
   sessionDeletions (disconnectClient (Rejects (Some ''Target closed'')) ''acme'' prompted) = [''acme'']"
proof -
  have h: "clients prompted ''acme'' = Some 0"
    by (simp add: prompted_eq)
  have before: "conversationState prompted ''acme'' ''c1'' =
      Some (\<lparr>lastMessageBody = Some ''Welcome'', messageCount = 1\<rparr>, False)"
    by (simp add: prompted_eq conversationState_def getUserState_def isEnding_def)
  from C5_disconnect_cleans_up [OF h, of "Rejects (Some ''Target closed'')"] h before
  show ?thesis
    by (simp add: prompted_eq)
qed

subsection \<open>Initialising twice\<close>

text \<open>
  Claim C6. When a tenant has a live session, \<^verbatim>\<open>initializeClient\<close> returns the stored client
  and leaves the whole state as it is: no client is constructed and no entry is added. So a
  call that follows a call which returned a client returns that same client again.
\<close>

theorem C6_initialize_idempotent:
  "(clients s eid = Some client \<longrightarrow> initializeClient started eid s = (s, Some client)) \<and>
   (initializeClient started eid s = (s1, Some client) \<longrightarrow>
      initializeClient again eid s1 = (s1, Some client))"
proof -
  have live: "initializeClient outcome tenant t = (t, Some c)" if "clients t tenant = Some c"
    for outcome tenant t c
    using that by (simp add: initializeClient_def)
  have "clients s1 eid = Some client" if "initializeClient started eid s = (s1, Some client)"
    using that
    by (auto simp: initializeClient_def Let_def emit_def deleteSessionData_def
        split: option.splits outcome.splits)
  with live show ?thesis
    by blast
qed

theorem C6_witness:
  "initializeClient Resolves ''acme'' initial = (live, Some 0) \<and>
   clients live ''acme'' = Some 0 \<and>
   initializeClient Resolves ''acme'' live = (live, Some 0) \<and>
   initializeClient (Rejects None) ''acme'' live = (live, Some 0)"
proof -
  have first: "initializeClient Resolves ''acme'' initial = (live, Some 0)"
    by (simp add: live_eq initializeClient_def initial_def)
  have h: "clients live ''acme'' = Some 0"
    by (simp add: live_eq)
  from C6_initialize_idempotent [of live "''acme''" 0 Resolves live Resolves]
    C6_initialize_idempotent [of initial "''acme''" 0 Resolves live "Rejects None"] first h
  show ?thesis
    by simp
qed

subsection \<open>The ready event\<close>

text \<open>
  Claim C7. When the \<^verbatim>\<open>ready\<close> event fires for a tenant that has a container, the handler
  clears the ending flags of the tenant, so that the flag of every chat reads as \<open>False\<close>,
  and emits \<^verbatim>\<open>client.ready\<close>; the state of every chat (its \<open>messageCount\<close> and
  \<open>lastMessageBody\<close>) is as before.
\<close>

theorem C7_ready_clears_ending_flags:
  assumes "clientStates s eid = Some cs"
  shows "\<exists>cs'. clientStates (on_ready eid s) eid = Some cs' \<and>
      (\<forall>chat. endingFlags cs' chat = None \<and> \<not> isEnding cs' chat \<and>
              userStates cs' chat = userStates cs chat \<and>
              getUserState cs' chat = getUserState cs chat) \<and>
      emitted (on_ready eid s) = emitted s @ [ClientReady eid] \<and>
      outbound (on_ready eid s) = outbound s \<and>
      clients (on_ready eid s) = clients s"
  using assms by (simp add: on_ready_def emit_def isEnding_def getUserState_def)

theorem C7_witness:
  "conversationState ended ''acme'' ''c1'' =
     Some (\<lparr>lastMessageBody = Some ''B'', messageCount = 2\<rparr>, True) \<and>
   conversationState (on_ready ''acme'' ended) ''acme'' ''c1'' =
     Some (\<lparr>lastMessageBody = Some ''B'', messageCount = 2\<rparr>, False) \<and>
   emitted (on_ready ''acme'' ended) = [ClientReady ''acme'']"
proof -
  let ?cs = "\<lparr>userStates = [''c1'' \<mapsto> \<lparr>lastMessageBody = Some ''B'', messageCount = 2\<rparr>],
              endingFlags = [''c1'' \<mapsto> True]\<rparr>"
  have h: "clientStates ended ''acme'' = Some ?cs"
    by (simp add: ended_eq)
  have before: "conversationState ended ''acme'' ''c1'' =
      Some (\<lparr>lastMessageBody = Some ''B'', messageCount = 2\<rparr>, True)"
    by (simp add: h conversationState_def getUserState_def isEnding_def)
  from C7_ready_clears_ending_flags [OF h]
  obtain cs' where "clientStates (on_ready ''acme'' ended) ''acme'' = Some cs'"
    and "\<not> isEnding cs' ''c1''" and "getUserState cs' ''c1'' = getUserState ?cs ''c1''"
    and "emitted (on_ready ''acme'' ended) = emitted ended @ [ClientReady ''acme'']"
    by blast
  then have "conversationState (on_ready ''acme'' ended) ''acme'' ''c1'' =
      Some (\<lparr>lastMessageBody = Some ''B'', messageCount = 2\<rparr>, False)"
    and "emitted (on_ready ''acme'' ended) = [ClientReady ''acme'']"
    by (simp_all add: conversationState_def getUserState_def ended_eq)
  with before show ?thesis
    by simp
qed

subsection \<open>Invariants of every run\<close>

lemma run_snoc: "run (ops @ [op]) = step (run ops) op"
  by (simp add: run_def)

lemma run_Nil: "run [] = initial"
  by (simp add: run_def)

lemma ending_is_counted_initial: "ending_is_counted initial"
  by (simp add: ending_is_counted_def initial_def)

lemma ending_is_counted_emit: "ending_is_counted (emit e s) = ending_is_counted s"
  by (simp add: ending_is_counted_def emit_def)

lemma ending_is_counted_disconnectClient:
  "ending_is_counted s \<Longrightarrow> ending_is_counted (disconnectClient teardown eid s)"
  by (auto simp: ending_is_counted_def disconnectClient_def disconnect_finally_eq
      split: option.splits outcome.splits if_splits)

lemma ending_is_countedD:
  "ending_is_counted s \<Longrightarrow> clientStates s eid = Some cs \<Longrightarrow> isEnding cs chat \<Longrightarrow>
     0 < messageCount (getUserState cs chat)"
  by (simp add: ending_is_counted_def)

lemma isEnding_new_container [simp]:
  "\<not> isEnding \<lparr>userStates = Map.empty, endingFlags = Map.empty\<rparr> chat"
  by (simp add: isEnding_def)

lemma ending_is_counted_initializeClient:
  "ending_is_counted s \<Longrightarrow> ending_is_counted (fst (initializeClient started eid s))"
  by (auto simp: ending_is_counted_def initializeClient_def Let_def emit_def deleteSessionData_def
      split: option.splits outcome.splits if_splits)

lemma ending_is_counted_on_ready:
  "ending_is_counted s \<Longrightarrow> ending_is_counted (on_ready eid s)"
  by (auto simp: ending_is_counted_def on_ready_def emit_def isEnding_def
      split: option.splits if_splits)

text \<open>
  What the \<^verbatim>\<open>finally\<close> block stores keeps the property when the stored state of the chat
  has a positive count or the chat's flag is not set.
\<close>

lemma ending_is_counted_finally_store:
  assumes "ending_is_counted s" and "clientStates s eid = Some cs0"
    and "\<And>c. c \<noteq> chat \<Longrightarrow> isEnding cs c = isEnding cs0 c"
    and "\<And>c. c \<noteq> chat \<Longrightarrow> getUserState cs c = getUserState cs0 c"
    and "isEnding cs chat \<Longrightarrow> 0 < messageCount u"
  shows "ending_is_counted (finally_store eid chat u cs sends s)"
  unfolding ending_is_counted_def
proof (intro allI impI)
  fix tenant clientState c
  assume stored: "clientStates (finally_store eid chat u cs sends s) tenant = Some clientState"
    and flag: "isEnding clientState c"
  show "0 < messageCount (getUserState clientState c)"
  proof (cases "tenant = eid")
    case False
    then have "clientStates s tenant = Some clientState"
      using stored by (simp add: finally_store_def)
    with assms(1) flag show ?thesis
      by (simp add: ending_is_counted_def)
  next
    case True
    then have cs': "clientState = cs\<lparr>userStates := (userStates cs)(chat \<mapsto> u)\<rparr>"
      using stored by (simp add: finally_store_def)
    show ?thesis
    proof (cases "c = chat")
      case True
      with cs' flag assms(5) show ?thesis
        by (simp add: getUserState_def isEnding_def)
    next
      case False
      with cs' flag have "isEnding cs0 c" and "getUserState clientState c = getUserState cs0 c"
        using assms(3) [of c] assms(4) [of c] by (simp_all add: getUserState_def isEnding_def)
      with assms(1,2) show ?thesis
        by (simp add: ending_is_counted_def)
    qed
  qed
qed

lemma ending_is_counted_handleMessage:
  assumes "ending_is_counted s"
  shows "ending_is_counted (handleMessage db replied eid msg s)"
proof -
  have flags: "isEnding (cs\<lparr>endingFlags := (endingFlags cs)(chat \<mapsto> b)\<rparr>) c =
      (if c = chat then b else isEnding cs c)" for cs :: ClientState and chat b c
    by (simp add: isEnding_def)
  have states: "getUserState (cs\<lparr>endingFlags := f\<rparr>) c = getUserState cs c"
    for cs :: ClientState and f c
    by (simp add: getUserState_def)
  show ?thesis
    using assms
    by (auto simp: handleMessage_def Let_def flags states
        intro!: ending_is_counted_finally_store dest: ending_is_countedD split: option.splits)
qed

lemma ending_is_counted_step: "ending_is_counted s \<Longrightarrow> ending_is_counted (step s op)"
  by (cases op)
    (simp_all add: ending_is_counted_initializeClient ending_is_counted_disconnectClient
      ending_is_counted_on_ready ending_is_counted_handleMessage ending_is_counted_emit
      on_qr_def on_auth_failure_def on_disconnected_def)

lemma ending_is_counted_run: "ending_is_counted (run ops)"
  by (induction ops rule: rev_induct)
    (simp_all add: run_Nil run_snoc ending_is_counted_initial ending_is_counted_step)

text \<open>
  Claim C9. In every state that the service reaches from its initial state by a sequence of
  operations and events, a chat of a tenant whose ending flag is set has a positive
  \<open>messageCount\<close>.
\<close>

theorem C9_ending_implies_counted:
  assumes "conversationState (run ops) eid chat = Some (u, True)"
  shows "0 < messageCount u"
proof -
  from assms obtain cs where "clientStates (run ops) eid = Some cs"
    and "getUserState cs chat = u" and "isEnding cs chat"
    by (auto dest: conversationState_SomeD)
  with ending_is_counted_run [of ops] show ?thesis
    by (auto simp: ending_is_counted_def)
qed

theorem C9_witness:
  "conversationState ended ''acme'' ''c1'' =
     Some (\<lparr>lastMessageBody = Some ''B'', messageCount = 2\<rparr>, True) \<and>
   0 < messageCount \<lparr>lastMessageBody = Some ''B'', messageCount = 2\<rparr>"
proof -
  have h: "conversationState ended ''acme'' ''c1'' =
      Some (\<lparr>lastMessageBody = Some ''B'', messageCount = 2\<rparr>, True)"
    by (simp add: ended_eq conversationState_def getUserState_def isEnding_def)
  from C9_ending_implies_counted [OF h [unfolded ended_def]] h show ?thesis
    by simp
qed

lemma same_tenants_step: "same_tenants s \<Longrightarrow> same_tenants (step s op)"
proof (cases op)
  case (Inbound db replied eid msg)
  assume "same_tenants s"
  then show ?thesis
    unfolding Inbound
    by (auto simp: same_tenants_def handleMessage_def Let_def finally_store_def
        split: option.splits)
qed (auto simp: same_tenants_def initializeClient_def Let_def emit_def deleteSessionData_def
      disconnectClient_def disconnect_finally_eq on_qr_def on_ready_def on_auth_failure_def
      on_disconnected_def split: option.splits outcome.splits if_splits)

lemma same_tenants_run: "same_tenants (run ops)"
  by (induction ops rule: rev_induct)
    (simp_all add: run_Nil run_snoc same_tenants_step, simp add: same_tenants_def initial_def)

text \<open>
  Claim C10. In every state that the service reaches, and so after every call of
  \<^verbatim>\<open>initializeClient\<close> (also one whose \<^verbatim>\<open>client.initialize()\<close> is rejected) and of
  \<^verbatim>\<open>disconnectClient\<close>, the maps \<^verbatim>\<open>clients\<close> and \<^verbatim>\<open>clientStates\<close> have the same
  tenants as keys.
\<close>

theorem C10_same_tenant_keys:
  "dom (clients (run ops)) = dom (clientStates (run ops)) \<and>
   dom (clients (fst (initializeClient started eid (run ops)))) =
     dom (clientStates (fst (initializeClient started eid (run ops)))) \<and>
   dom (clients (disconnectClient teardown eid (run ops))) =
     dom (clientStates (disconnectClient teardown eid (run ops)))"
proof -
  have "same_tenants (run ops)"
    and "same_tenants (step (run ops) (Initialize started eid))"
    and "same_tenants (step (run ops) (Disconnect teardown eid))"
    by (simp_all only: same_tenants_run same_tenants_step)
  then show ?thesis
    by (simp add: same_tenants_def)
qed

theorem C10_witness:
  "dom (clients ended) = dom (clientStates ended) \<and>
   dom (clients (fst (initializeClient (Rejects None) ''globex'' ended))) =
     dom (clientStates (fst (initializeClient (Rejects None) ''globex'' ended))) \<and>
   dom (clients (disconnectClient Resolves ''globex'' ended)) =
     dom (clientStates (disconnectClient Resolves ''globex'' ended)) \<and>
   clients ended ''acme'' = Some 0 \<and>
   clients (fst (initializeClient (Rejects None) ''globex'' ended)) ''globex'' = None \<and>
   clientStates (fst (initializeClient (Rejects None) ''globex'' ended)) ''globex'' = None"
proof -
  have "clients ended ''acme'' = Some 0"
    and "clients (fst (initializeClient (Rejects None) ''globex'' ended)) ''globex'' = None"
    and "clientStates (fst (initializeClient (Rejects None) ''globex'' ended)) ''globex'' = None"
    by (simp_all add: ended_eq initializeClient_def emit_def deleteSessionData_def)
  with C10_same_tenant_keys [of "[Initialize Resolves ''acme'',
      Inbound example_db Resolves ''acme'' msg_HI, Inbound example_db Resolves ''acme'' msg_HI]"
      "Rejects None" "''globex''" Resolves, folded ended_def]
  show ?thesis
    by simp
qed

end
